theory Spec2Isabelle
  imports Main "HOL-Library.Sublist"
begin

section \<open>rpy2's setup.py: exceptions and version comparison\<close>

text \<open>
  The build script \<^verbatim>\<open>setup.py\<close> is modelled function by function. A Python call
  either returns a value or raises; a raise is the left summand of a sum type. Only the
  exception classes the script distinguishes are kept apart:
  \<^item> \<open>SystemExit c\<close> is what \<^verbatim>\<open>sys.exit(c)\<close> raises;
  \<^item> \<open>CCompilerError\<close>, \<open>DistutilsExecError\<close> and \<open>DistutilsPlatformError\<close> are the three
    classes named by the handlers of \<^verbatim>\<open>get_c_extension_status\<close> (an instance of a
    subclass, such as distutils' CompileError or LinkError, counts as its handler's class;
    the three classes are unrelated in \<^verbatim>\<open>distutils.errors\<close>, so the order of the
    handlers does not matter);
  \<^item> \<open>IndexError\<close> is raised by an out-of-range subscript, \<open>NameError\<close> by reading a name
    that is bound nowhere;
  \<^item> \<open>OtherError\<close> is any other exception (OSError, TypeError, ImportError, ...).
\<close>

datatype exn =
    SystemExit int
  | CCompilerError
  | DistutilsExecError
  | DistutilsPlatformError
  | IndexError
  | NameError
  | OtherError

text \<open>
  \<^verbatim>\<open>
  def cmp_version(x, y):
      if (x[0] < y[0]):
          return -1
      if (x[0] > y[0]):
          return 1
      if (x[0] == y[0]):
          if len(x) == 1 or len(y) == 1:
              return 0
          return cmp_version(x[1:], y[1:])
  \<close>
  Tuples of Python integers are lists of \<open>int\<close>. \<^verbatim>\<open>x[0]\<close> raises IndexError on an
  empty tuple (\<^verbatim>\<open>x[0]\<close> is evaluated before \<^verbatim>\<open>y[0]\<close>, both raise the same class).
  Falling off the end of the function returns \<^verbatim>\<open>None\<close>, the \<open>None\<close> of the result.
\<close>

fun cmp_version :: "int list \<Rightarrow> int list \<Rightarrow> exn + int option" where
  "cmp_version [] y = Inl IndexError"
| "cmp_version (a # x) [] = Inl IndexError"
| "cmp_version (a # x) (b # y) =
     (if a < b then Inr (Some (- 1))
      else if a > b then Inr (Some 1)
      else if a = b then
        (if length (a # x) = 1 \<or> length (b # y) = 1 then Inr (Some 0)
         else cmp_version x y)
      else Inr None)"

section \<open>Strings and paths\<close>

text \<open>
  Python strings are lists of characters, a character being a code point below 256.
  \<open>startswith\<close> is \<^verbatim>\<open>str.startswith\<close>. \<open>rstrip\<close> is \<^verbatim>\<open>str.rstrip()\<close> without argument,
  which removes the trailing characters for which \<^verbatim>\<open>str.isspace\<close> holds; below 256 these
  are tab, line feed, vertical tab, form feed, carriage return, the separators 0x1C to
  0x1F, the space, next line (0x85) and the no-break space (0xA0). \<open>str_split\<close> is
  \<^verbatim>\<open>str.split(sep)\<close>: it cuts at the non-overlapping occurrences of \<open>sep\<close> found from left
  to right and raises ValueError on an empty separator.
\<close>

type_synonym path = string

definition startswith :: "string \<Rightarrow> string \<Rightarrow> bool" where
  "startswith s p = (take (length p) s = p)"

definition isspace :: "char \<Rightarrow> bool" where
  "isspace c = (c \<in> set [CHR 0x09, CHR 0x0A, CHR 0x0B, CHR 0x0C, CHR 0x0D,
                          CHR 0x1C, CHR 0x1D, CHR 0x1E, CHR 0x1F, CHR 0x20,
                          CHR 0x85, CHR 0xA0])"

definition rstrip :: "string \<Rightarrow> string" where
  "rstrip s = rev (dropWhile isspace (rev s))"

function split_from :: "string \<Rightarrow> string \<Rightarrow> string \<Rightarrow> string list" where
  "split_from sep cur s =
     (if s = [] then [cur]
      else if sep \<noteq> [] \<and> startswith s sep
        then cur # split_from sep [] (drop (length sep) s)
      else split_from sep (cur @ [hd s]) (tl s))"
  by pat_completeness auto
termination
  by (relation "measure (\<lambda>(sep, cur, s). length s)") auto

declare split_from.simps [simp del]

definition str_split :: "string \<Rightarrow> string \<Rightarrow> exn + string list" where
  "str_split s sep = (if sep = [] then Inl OtherError else Inr (split_from sep [] s))"

text \<open>\<^verbatim>\<open>os.path.join(a, b)\<close> of \<^verbatim>\<open>posixpath\<close>, for two components.\<close>

definition path_join :: "path \<Rightarrow> path \<Rightarrow> path" where
  "path_join a b =
     (if startswith b ''/'' then b
      else if a = [] \<or> last a = CHR ''/'' then a @ b
      else a @ ''/'' @ b)"

text \<open>\<^verbatim>\<open>'...%s...' % v\<close> for a value that is a string or \<^verbatim>\<open>None\<close>.\<close>

definition format_s :: "string option \<Rightarrow> string" where
  "format_s v = (case v of None \<Rightarrow> ''None'' | Some s \<Rightarrow> s)"

section \<open>The world the script runs in\<close>

text \<open>
  The file system maps a path to what is there. \<^verbatim>\<open>shutil.rmtree(d)\<close>, when it does not
  raise, removes \<open>d\<close> and every path below it. \<^verbatim>\<open>os.path.exists(p)\<close> is \<open>fs p \<noteq> None\<close>.
\<close>

datatype node = Directory | File string

type_synonym filesystem = "path \<Rightarrow> node option"

definition is_under :: "path \<Rightarrow> path \<Rightarrow> bool" where
  "is_under d p = (p = d \<or> startswith p (d @ ''/''))"

definition remove_tree :: "path \<Rightarrow> filesystem \<Rightarrow> filesystem" where
  "remove_tree d fs = (\<lambda>p. if is_under d p then None else fs p)"

fun create_files :: "path list \<Rightarrow> filesystem \<Rightarrow> filesystem" where
  "create_files [] fs = fs"
| "create_files (p # ps) fs = create_files ps (fs(p \<mapsto> File []))"

text \<open>
  What the run leaves behind for an observer: warnings (\<^verbatim>\<open>warnings.warn\<close>, under the
  default filters, which report and go on), printed lines, and the calls the script makes
  to its compiler probe and to \<^verbatim>\<open>rpy2.situation\<close>.
\<close>

datatype event =
    Warn string
  | Print string
  | Call_get_r_c_extension_status
  | Call_get_r_home
  | Call_get_r_flags string
  | Call_get_c_extension_status
  | Call_get_cffi_mode

record world =
  files :: filesystem
  events :: "event list"

definition log :: "event \<Rightarrow> world \<Rightarrow> world" where
  "log e w = w\<lparr>events := events w @ [e]\<rparr>"

definition initial_world :: "filesystem \<Rightarrow> world" where
  "initial_world fs = \<lparr>files = fs, events = []\<rparr>"

text \<open>
  The values of \<^verbatim>\<open>rpy2.situation\<close> that the script handles. The module is imported, not
  defined, by \<^verbatim>\<open>setup.py\<close>: of \<^verbatim>\<open>CFFI_MODE\<close> only the members the script names are
  known, any other value is \<open>OTHER_MODE\<close>; of a \<^verbatim>\<open>CExtensionOptions\<close> object only the two
  attributes the script reads, \<^verbatim>\<open>include_dirs\<close> and \<^verbatim>\<open>library_dirs\<close>.
\<close>

datatype CFFI_MODE = ABI | API | BOTH | OTHER_MODE string

record c_ext =
  ext_include_dirs :: "path list option"
  ext_library_dirs :: "path list option"

datatype compiler = CCompiler string

text \<open>
  The environment answers every call the script makes outside its own file: the
  interpreter (\<^verbatim>\<open>sys.version_info\<close>, the import statements of lines 10 to 27,
  \<^verbatim>\<open>os.getenv\<close>, \<^verbatim>\<open>os.linesep\<close>), \<^verbatim>\<open>subprocess.check_output\<close>, \<^verbatim>\<open>tempfile.mkdtemp\<close>,
  \<^verbatim>\<open>open\<close> and \<^verbatim>\<open>write\<close>, distutils (\<^verbatim>\<open>new_compiler\<close>, \<^verbatim>\<open>customize_compiler\<close>,
  \<^verbatim>\<open>compile\<close>, \<^verbatim>\<open>link_executable\<close>), \<^verbatim>\<open>shutil.rmtree\<close> and \<^verbatim>\<open>rpy2.situation\<close>.
  An answer is a returned value or a raised exception; for a call whose value is not
  used it is \<open>None\<close> or the exception raised.
\<close>

record environ =
  sys_version_info :: "int \<times> int"
  import_error :: "exn option"
  os_getenv :: "string \<Rightarrow> string option"
  os_linesep :: string
  subprocess_check_output :: "string list \<Rightarrow> exn + string"
  tempfile_mkdtemp :: "string \<Rightarrow> exn + path"
  open_w :: "path \<Rightarrow> exn option"
  fh_write :: "path \<Rightarrow> string \<Rightarrow> exn option"
  new_compiler :: "exn + compiler"
  customize_compiler :: "compiler \<Rightarrow> exn option"
  compiler_compile :: "compiler \<Rightarrow> path list \<Rightarrow> path \<Rightarrow> path list option \<Rightarrow> exn + path list"
  compiler_link_executable ::
    "compiler \<Rightarrow> path list \<Rightarrow> path \<Rightarrow> string list \<Rightarrow> path list option \<Rightarrow> exn option"
  shutil_rmtree :: "path \<Rightarrow> exn option"
  situation_get_r_home :: "exn + string option"
  situation_CExtensionOptions :: "exn + c_ext"
  situation_get_r_flags :: "string option \<Rightarrow> string \<Rightarrow> exn + string list"
  c_ext_add_lib :: "c_ext \<Rightarrow> string list \<Rightarrow> exn + c_ext"
  c_ext_add_include :: "c_ext \<Rightarrow> string list \<Rightarrow> exn + c_ext"
  situation_get_cffi_mode :: "exn + CFFI_MODE"

section \<open>Finding R's home\<close>

text \<open>
  \<^verbatim>\<open>
  def _get_r_home(r_bin = 'R'):
      if (os.getenv('R_ENVIRON') is not None) or (os.getenv('R_ENVIRON_USER') is not None):
          warnings.warn('The environment variable R_ENVIRON or R_ENVIRON_USER is set.' ...)
      try:
          r_home = subprocess.check_output((r_bin, "RHOME"), universal_newlines=True)
      except:
          msg = "Error: Tried to guess R's HOME but no command '%s' in the PATH." % r_bin
          print(msg)
          sys.exit(1)
      r_home = r_home.split(os.linesep)
      #Twist if 'R RHOME' spits out a warning
      if r_home[0].startswith("WARNING"):
          warnings.warn("R emitting a warning: %s" % r_home[0])
          r_home = r_home[1].rstrip()
      else:
          r_home = r_home[0].rstrip()
      if os.path.exists(os.path.join(r_home, 'Renviron.site')):
          warnings.warn("The optional file '%s' is defined. ..." % os.path.join(...))
      return r_home
  \<close>
  The function is \<open>setup_get_r_home\<close> here (a name cannot begin with an underscore). The
  bare \<^verbatim>\<open>except:\<close> catches every exception of the subprocess call. A subscript beyond
  the end of the list of lines raises IndexError.
\<close>

definition environ_warning :: string where
  "environ_warning =
     ''The environment variable R_ENVIRON or R_ENVIRON_USER is set.''
     @ '' Differences between their settings during build time and run''
     @ '' time may lead to issues when using rpy2.''"

definition no_command_msg :: "string \<Rightarrow> string" where
  "no_command_msg r_bin =
     ''Error: Tried to guess R'' @ [CHR 0x27] @ ''s HOME but no command '' @ [CHR 0x27]
     @ r_bin @ [CHR 0x27] @ '' in the PATH.''"

definition renviron_site_warning :: "path \<Rightarrow> string" where
  "renviron_site_warning p =
     ''The optional file '' @ [CHR 0x27] @ p @ [CHR 0x27] @ '' is defined. Modifying it between ''
     @ ''build time and run time may lead to issues when using rpy2.''"

text \<open>The end of the function, from the test for \<^verbatim>\<open>Renviron.site\<close> on.\<close>

definition check_renviron_site :: "path \<Rightarrow> world \<Rightarrow> (exn + string) \<times> world" where
  "check_renviron_site r_home w =
     (if files w (path_join r_home ''Renviron.site'') \<noteq> None
      then (Inr r_home, log (Warn (renviron_site_warning (path_join r_home ''Renviron.site''))) w)
      else (Inr r_home, w))"

definition setup_get_r_home :: "environ \<Rightarrow> string \<Rightarrow> world \<Rightarrow> (exn + string) \<times> world" where
  "setup_get_r_home env r_bin w =
     (let w1 = (if os_getenv env ''R_ENVIRON'' \<noteq> None \<or> os_getenv env ''R_ENVIRON_USER'' \<noteq> None
                then log (Warn environ_warning) w else w)
      in case subprocess_check_output env [r_bin, ''RHOME''] of
           Inl e \<Rightarrow> (Inl (SystemExit 1), log (Print (no_command_msg r_bin)) w1)
         | Inr out \<Rightarrow>
            (case str_split out (os_linesep env) of
               Inl e \<Rightarrow> (Inl e, w1)
             | Inr [] \<Rightarrow> (Inl IndexError, w1)
             | Inr (line0 # lines) \<Rightarrow>
                 if startswith line0 ''WARNING''
                 then (let w2 = log (Warn (''R emitting a warning: '' @ line0)) w1
                       in case lines of
                            [] \<Rightarrow> (Inl IndexError, w2)
                          | line1 # _ \<Rightarrow> check_renviron_site (rstrip line1) w2)
                 else check_renviron_site (rstrip line0) w1))"

section \<open>The compiler probe\<close>

text \<open>
  \<^verbatim>\<open>
  class COMPILATION_STATUS(enum.Enum):
      COMPILE_ERROR=('unable to compile R C extensions - missing headers '
                     'or R not compiled as a library ?')
      NO_COMPILER=('unable to compile sqlite3 C extensions - '
                   'no c compiler?')
      PLATFORM_ERROR=('unable to compile R C extensions - platform error')
      OK = None
  \<close>
\<close>

datatype COMPILATION_STATUS = COMPILE_ERROR | NO_COMPILER | PLATFORM_ERROR | OK

fun status_value :: "COMPILATION_STATUS \<Rightarrow> string option" where
  "status_value COMPILE_ERROR =
     Some (''unable to compile R C extensions - missing headers ''
           @ ''or R not compiled as a library ?'')"
| "status_value NO_COMPILER =
     Some (''unable to compile sqlite3 C extensions - '' @ ''no c compiler?'')"
| "status_value PLATFORM_ERROR = Some ''unable to compile R C extensions - platform error''"
| "status_value OK = None"

text \<open>
  \<^verbatim>\<open>
  def get_c_extension_status(libraries=['R'], include_dirs=None, library_dirs=None):
      c_code = ('#include <Rinterface.h>\n\n'
                'int main(int argc, char **argv) { return 0; }')
      tmp_dir = tempfile.mkdtemp(prefix='tmp_pw_r_')
      bin_file = os.path.join(tmp_dir, 'test_pw_r')
      src_file = bin_file + '.c'
      with open(src_file, 'w') as fh:
          fh.write(c_code)
      compiler = new_compiler()
      customize_compiler(compiler)
      try:
          compiler.link_executable(
              compiler.compile([src_file], output_dir=tmp_dir, include_dirs=include_dirs),
              bin_file, libraries=libraries, library_dirs=library_dirs)
      except CCompilerError:
          status = COMPILATION_STATUS.COMPILE_ERROR
      except DistutilsExecError:
          status = COMPILATION_STATUS.NO_COMPILER
      except DistutilsPlatformError:
          status = COMPILATION_STATUS.PLATFORM_ERROR
      else:
          status = COMPILATION_STATUS.OK
      shutil.rmtree(tmp_dir)
      return status
  \<close>
  There is no \<^verbatim>\<open>finally\<close>: an exception raised before the \<^verbatim>\<open>try\<close>, one that no
  handler names, or one raised by \<^verbatim>\<open>rmtree\<close> leaves the function at once. A successful
  \<^verbatim>\<open>mkdtemp\<close> creates the directory, a successful \<^verbatim>\<open>open(.., 'w')\<close> an empty file;
  a successful \<^verbatim>\<open>compile\<close> creates the object files it returns and a successful
  \<^verbatim>\<open>link_executable\<close> the program.
\<close>

definition c_code :: string where
  "c_code = ''#include <Rinterface.h>'' @ [CHR 0x0A, CHR 0x0A]
            @ ''int main(int argc, char **argv) { return 0; }''"

text \<open>The expression of the \<^verbatim>\<open>try\<close> block: the argument \<^verbatim>\<open>compile(..)\<close> first, then the link.\<close>

definition compile_and_link ::
  "environ \<Rightarrow> compiler \<Rightarrow> path \<Rightarrow> path \<Rightarrow> path \<Rightarrow> string list \<Rightarrow> path list option
     \<Rightarrow> path list option \<Rightarrow> filesystem \<Rightarrow> exn option \<times> filesystem" where
  "compile_and_link env cc src_file tmp_dir bin_file libraries include_dirs library_dirs fs =
     (case compiler_compile env cc [src_file] tmp_dir include_dirs of
        Inl e \<Rightarrow> (Some e, fs)
      | Inr objects \<Rightarrow>
          (case compiler_link_executable env cc objects bin_file libraries library_dirs of
             Some e \<Rightarrow> (Some e, create_files objects fs)
           | None \<Rightarrow> (None, (create_files objects fs)(bin_file \<mapsto> File []))))"

text \<open>The \<^verbatim>\<open>except\<close> clauses in their order, and the \<^verbatim>\<open>else\<close> clause.\<close>

definition handlers :: "exn option \<Rightarrow> exn + COMPILATION_STATUS" where
  "handlers raised =
     (case raised of
        None \<Rightarrow> Inr OK
      | Some e \<Rightarrow>
          if e = CCompilerError then Inr COMPILE_ERROR
          else if e = DistutilsExecError then Inr NO_COMPILER
          else if e = DistutilsPlatformError then Inr PLATFORM_ERROR
          else Inl e)"

text \<open>From \<^verbatim>\<open>compiler = new_compiler()\<close> to the \<^verbatim>\<open>return\<close>.\<close>

definition probe_with_compiler ::
  "environ \<Rightarrow> path \<Rightarrow> path \<Rightarrow> path \<Rightarrow> string list \<Rightarrow> path list option \<Rightarrow> path list option
     \<Rightarrow> filesystem \<Rightarrow> (exn + COMPILATION_STATUS) \<times> filesystem" where
  "probe_with_compiler env src_file tmp_dir bin_file libraries include_dirs library_dirs fs =
     (case new_compiler env of
        Inl e \<Rightarrow> (Inl e, fs)
      | Inr cc \<Rightarrow>
          (case customize_compiler env cc of
             Some e \<Rightarrow> (Inl e, fs)
           | None \<Rightarrow>
               (let (raised, fs') =
                      compile_and_link env cc src_file tmp_dir bin_file libraries include_dirs
                        library_dirs fs
                in case handlers raised of
                     Inl e \<Rightarrow> (Inl e, fs')
                   | Inr status \<Rightarrow>
                       (case shutil_rmtree env tmp_dir of
                          Some e \<Rightarrow> (Inl e, fs')
                        | None \<Rightarrow> (Inr status, remove_tree tmp_dir fs')))))"

definition get_c_extension_status ::
  "environ \<Rightarrow> string list \<Rightarrow> path list option \<Rightarrow> path list option \<Rightarrow> filesystem
     \<Rightarrow> (exn + COMPILATION_STATUS) \<times> filesystem" where
  "get_c_extension_status env libraries include_dirs library_dirs fs =
     (case tempfile_mkdtemp env ''tmp_pw_r_'' of
        Inl e \<Rightarrow> (Inl e, fs)
      | Inr tmp_dir \<Rightarrow>
          (let fs1 = fs(tmp_dir \<mapsto> Directory);
               bin_file = path_join tmp_dir ''test_pw_r'';
               src_file = bin_file @ ''.c''
           in case open_w env src_file of
                Some e \<Rightarrow> (Inl e, fs1)
              | None \<Rightarrow>
                  (case fh_write env src_file c_code of
                     Some e \<Rightarrow> (Inl e, fs1(src_file \<mapsto> File []))
                   | None \<Rightarrow>
                       probe_with_compiler env src_file tmp_dir bin_file libraries include_dirs
                         library_dirs (fs1(src_file \<mapsto> File c_code)))))"

text \<open>
  \<^verbatim>\<open>
  def get_r_c_extension_status():
      r_home = situation.get_r_home()
      c_ext = situation.CExtensionOptions()
      c_ext.add_lib(*situation.get_r_flags(r_home, '--ldflags'))
      c_ext.add_include(*situation.get_r_flags(r_home, '--cppflags'))
      status = get_c_extension_status(libraries=['R'],
                                      include_dirs=c_ext.include_dirs,
                                      library_dirs=c_ext.library_dirs)
      return status
  \<close>
\<close>

definition get_r_c_extension_status ::
  "environ \<Rightarrow> world \<Rightarrow> (exn + COMPILATION_STATUS) \<times> world" where
  "get_r_c_extension_status env w =
     (let w1 = log Call_get_r_home w in
      case situation_get_r_home env of
        Inl e \<Rightarrow> (Inl e, w1)
      | Inr r_home \<Rightarrow>
      (case situation_CExtensionOptions env of
        Inl e \<Rightarrow> (Inl e, w1)
      | Inr c0 \<Rightarrow>
      (let w2 = log (Call_get_r_flags ''--ldflags'') w1 in
       case situation_get_r_flags env r_home ''--ldflags'' of
        Inl e \<Rightarrow> (Inl e, w2)
      | Inr ldflags \<Rightarrow>
      (case c_ext_add_lib env c0 ldflags of
        Inl e \<Rightarrow> (Inl e, w2)
      | Inr c1 \<Rightarrow>
      (let w3 = log (Call_get_r_flags ''--cppflags'') w2 in
       case situation_get_r_flags env r_home ''--cppflags'' of
        Inl e \<Rightarrow> (Inl e, w3)
      | Inr cppflags \<Rightarrow>
      (case c_ext_add_include env c1 cppflags of
        Inl e \<Rightarrow> (Inl e, w3)
      | Inr c2 \<Rightarrow>
      (let w4 = log Call_get_c_extension_status w3;
           (r, fs') = get_c_extension_status env [''R''] (ext_include_dirs c2) (ext_library_dirs c2)
                        (files w4)
       in (r, w4\<lparr>files := fs'\<rparr>))))))))"

section \<open>The script\<close>

text \<open>
  The statements of the module, top to bottom, up to the choice of \<^verbatim>\<open>cffi_modules\<close>:
  \<^verbatim>\<open>
  if ((sys.version_info[0] < 3) or
      (sys.version_info[0] == 3 and sys.version_info[1] < 5)):
      print('rpy2 is no longer supporting Python < 3.' ...)
      sys.exit(1)
  import ...
  c_extension_status = get_r_c_extension_status()
  cffi_mode = situation.get_cffi_mode()
  if cffi_mode == situation.CFFI_MODE.ABI:
      cffi_modules = ['rpy2/_rinterface_cffi_build.py:ffibuilder_abi']
  elif cffi_mode == situation.CFFI_MODE.API:
      if c_extension_status != COMPILATION_STATUS.OK:
          print('API mode requested but %s' % c_extension_status.value)
          sys.exit(1)
      cffi_modules = ['rpy2/_rinterface_cffi_build.py:ffibuilder_api']
  elif cffi_mode == situation.CFFI_MODE.BOTH:
      if c_extension_status != COMPILATION_STATUS.OK:
          print('API mode requested but %s' % c_extension_status.value)
          sys.exit(1)
      cffi_modules = ['rpy2/_rinterface_cffi_build.py:ffibuilder_abi',
                      'rpy2/_rinterface_cffi_build.py:ffibuilder_api']
  else:
      # default interface
      cffi_modules = ['rpy2/_rinterface_cffi_build.py:ffibuilder_abi']
  \<close>
  The result is the value of \<^verbatim>\<open>cffi_modules\<close>, or the exception that ends the run. The
  call of \<^verbatim>\<open>setup(..)\<close> that follows under \<^verbatim>\<open>__main__\<close> is not part of the model.
\<close>

definition python_too_old :: "environ \<Rightarrow> bool" where
  "python_too_old env =
     (fst (sys_version_info env) < 3
      \<or> (fst (sys_version_info env) = 3 \<and> snd (sys_version_info env) < 5))"

definition version_msg :: string where
  "version_msg = ''rpy2 is no longer supporting Python < 3.''
     @ ''Consider using an older rpy2 release when using an ''
     @ ''older Python release.''"

definition ffibuilder_abi :: string where
  "ffibuilder_abi = ''rpy2/_rinterface_cffi_build.py:ffibuilder_abi''"

definition ffibuilder_api :: string where
  "ffibuilder_api = ''rpy2/_rinterface_cffi_build.py:ffibuilder_api''"

definition api_requested_msg :: "COMPILATION_STATUS \<Rightarrow> string" where
  "api_requested_msg status = ''API mode requested but '' @ format_s (status_value status)"

text \<open>The \<^verbatim>\<open>if\<close>/\<^verbatim>\<open>elif\<close> chain on \<^verbatim>\<open>cffi_mode\<close>.\<close>

definition select_cffi_modules ::
  "CFFI_MODE \<Rightarrow> COMPILATION_STATUS \<Rightarrow> world \<Rightarrow> (exn + string list) \<times> world" where
  "select_cffi_modules cffi_mode c_extension_status w =
     (if cffi_mode = ABI then (Inr [ffibuilder_abi], w)
      else if cffi_mode = API then
        (if c_extension_status \<noteq> OK
         then (Inl (SystemExit 1), log (Print (api_requested_msg c_extension_status)) w)
         else (Inr [ffibuilder_api], w))
      else if cffi_mode = BOTH then
        (if c_extension_status \<noteq> OK
         then (Inl (SystemExit 1), log (Print (api_requested_msg c_extension_status)) w)
         else (Inr [ffibuilder_abi, ffibuilder_api], w))
      else (Inr [ffibuilder_abi], w))"

definition setup_script :: "environ \<Rightarrow> world \<Rightarrow> (exn + string list) \<times> world" where
  "setup_script env w =
     (if python_too_old env then (Inl (SystemExit 1), log (Print version_msg) w)
      else case import_error env of
        Some e \<Rightarrow> (Inl e, w)
      | None \<Rightarrow>
          (let (r, w1) = get_r_c_extension_status env (log Call_get_r_c_extension_status w)
           in case r of
                Inl e \<Rightarrow> (Inl e, w1)
              | Inr c_extension_status \<Rightarrow>
                  (let w2 = log Call_get_cffi_mode w1
                   in case situation_get_cffi_mode env of
                        Inl e \<Rightarrow> (Inl e, w2)
                      | Inr cffi_mode \<Rightarrow> select_cffi_modules cffi_mode c_extension_status w2)))"

text \<open>
  The rest of the module:
  \<^verbatim>\<open>
  LONG_DESCRIPTION = """..."""
  if __name__ == '__main__':
      pack_dir = {pack_name: os.path.join(package_prefix, 'rpy2')}
      requires = [...]
      setup(name=pack_name, ...)
  \<close>
  No statement of the module binds \<^verbatim>\<open>pack_name\<close> (line 26 binds \<^verbatim>\<open>PACKAGE_NAME\<close>, and
  the imports bind only the names they list), so when the module is run as the main
  program the first statement of the block raises NameError before \<^verbatim>\<open>setup\<close> is called.
  \<open>is_main\<close> is \<^verbatim>\<open>__name__ == '__main__'\<close>.
\<close>

definition setup_main :: "bool \<Rightarrow> environ \<Rightarrow> world \<Rightarrow> (exn + unit) \<times> world" where
  "setup_main is_main env w =
     (case setup_script env w of
        (Inl e, w') \<Rightarrow> (Inl e, w')
      | (Inr cffi_modules, w') \<Rightarrow> if is_main then (Inl NameError, w') else (Inr (), w'))"

text \<open>
  The exit status of the interpreter for the way a run ends: 0 when the module runs to its
  end, the low eight bits of the argument for \<^verbatim>\<open>sys.exit(c)\<close> with an integer \<open>c\<close>, and 1
  for any other exception that nothing catches.
\<close>

fun exit_status :: "exn + 'a \<Rightarrow> int" where
  "exit_status (Inr v) = 0"
| "exit_status (Inl (SystemExit c)) = c mod 256"
| "exit_status (Inl e) = 1"


text \<open>
  The events of a run of \<^verbatim>\<open>get_r_c_extension_status\<close> that reaches its \<^verbatim>\<open>return\<close>, with
  the call itself in front.
\<close>

definition probe_events :: "event list" where
  "probe_events =
     [Call_get_r_c_extension_status, Call_get_r_home, Call_get_r_flags ''--ldflags'',
      Call_get_r_flags ''--cppflags'', Call_get_c_extension_status]"

section \<open>Example environments\<close>

text \<open>
  A machine with Python 3.7 and R installed under \<^verbatim>\<open>/usr/lib/R\<close>, whose header
  \<^verbatim>\<open>Rinterface.h\<close> is found only with \<^verbatim>\<open>/usr/share/R/include\<close> on the include path:
  the compiler raises CompileError (a CCompilerError) without it.
\<close>

definition env_ok :: environ where
  "env_ok =
     \<lparr> sys_version_info = (3, 7),
       import_error = None,
       os_getenv = (\<lambda>name. None),
       os_linesep = [CHR 0x0A],
       subprocess_check_output =
         (\<lambda>args. if args = [''R'', ''RHOME''] then Inr (''/usr/lib/R'' @ [CHR 0x0A])
                  else Inl OtherError),
       tempfile_mkdtemp = (\<lambda>prefix. Inr (''/tmp/'' @ prefix @ ''k3x9'')),
       open_w = (\<lambda>p. None),
       fh_write = (\<lambda>p s. None),
       new_compiler = Inr (CCompiler ''unix''),
       customize_compiler = (\<lambda>cc. None),
       compiler_compile =
         (\<lambda>cc sources output_dir dirs.
            if dirs = Some [''/usr/share/R/include'']
            then Inr [path_join output_dir ''test_pw_r.o''] else Inl CCompilerError),
       compiler_link_executable = (\<lambda>cc objects prog libs dirs. None),
       shutil_rmtree = (\<lambda>p. None),
       situation_get_r_home = Inr (Some ''/usr/lib/R''),
       situation_CExtensionOptions = Inr \<lparr>ext_include_dirs = Some [], ext_library_dirs = Some []\<rparr>,
       situation_get_r_flags =
         (\<lambda>r_home flag. if flag = ''--ldflags'' then Inr [''-L/usr/lib/R/lib'', ''-lR'']
                         else Inr [''-I/usr/share/R/include'']),
       c_ext_add_lib = (\<lambda>c flags. Inr (c\<lparr>ext_library_dirs := Some [''/usr/lib/R/lib'']\<rparr>)),
       c_ext_add_include =
         (\<lambda>c flags. Inr (c\<lparr>ext_include_dirs := Some [''/usr/share/R/include'']\<rparr>)),
       situation_get_cffi_mode = Inr ABI \<rparr>"

text \<open>The same machine when \<^verbatim>\<open>shutil.rmtree\<close> fails (OSError).\<close>

definition env_rmtree_fails :: environ where
  "env_rmtree_fails = env_ok\<lparr>shutil_rmtree := (\<lambda>p. Some OtherError)\<rparr>"

text \<open>The same machine when the source file cannot be opened (OSError).\<close>

definition env_open_fails :: environ where
  "env_open_fails = env_ok\<lparr>open_w := (\<lambda>p. Some OtherError)\<rparr>"

text \<open>The same machine when \<^verbatim>\<open>compile\<close> raises an exception no handler names.\<close>

definition env_compile_other :: environ where
  "env_compile_other = env_ok\<lparr>compiler_compile := (\<lambda>cc sources output_dir dirs. Inl OtherError)\<rparr>"

text \<open>A machine where \<^verbatim>\<open>Rinterface.h\<close> is on the compiler's default include path.\<close>

definition env_default_headers :: environ where
  "env_default_headers =
     env_ok\<lparr>compiler_compile :=
              (\<lambda>cc sources output_dir dirs. Inr [path_join output_dir ''test_pw_r.o''])\<rparr>"

text \<open>
  distutils, which is not part of the repository, runs the tool chain through \<^verbatim>\<open>spawn\<close>,
  and every compiler class of it catches the DistutilsExecError of \<^verbatim>\<open>spawn\<close> and raises
  its own error in its place:
  \<^verbatim>\<open>
  def _compile(self, obj, src, ext, cc_args, extra_postargs, pp_opts):
      try:
          self.spawn(compiler_so + cc_args + [src, '-o', obj] + extra_postargs)
      except DistutilsExecError as msg:
          raise CompileError(msg)
  \<close>
  and likewise \<^verbatim>\<open>raise LinkError(msg)\<close> in \<^verbatim>\<open>link\<close>. CompileError and LinkError are
  subclasses of CCompilerError. \<open>distutils_reraise\<close> gives what \<^verbatim>\<open>compile\<close> or \<^verbatim>\<open>link\<close>
  raises for what \<^verbatim>\<open>spawn\<close> raised.
\<close>

definition distutils_reraise :: "exn option \<Rightarrow> exn option" where
  "distutils_reraise spawned =
     (case spawned of
        None \<Rightarrow> None
      | Some e \<Rightarrow> if e = DistutilsExecError then Some CCompilerError else Some e)"

text \<open>
  The machine of \<open>env_ok\<close> without any compiler executable: \<^verbatim>\<open>spawn\<close> cannot run the
  command and raises DistutilsExecError, in \<^verbatim>\<open>compile\<close> as it would in \<^verbatim>\<open>link\<close>.
\<close>

definition env_no_compiler :: environ where
  "env_no_compiler =
     env_ok
       \<lparr> compiler_compile :=
           (\<lambda>cc sources output_dir dirs.
              case distutils_reraise (Some DistutilsExecError) of
                Some e \<Rightarrow> Inl e
              | None \<Rightarrow> Inr [path_join output_dir ''test_pw_r.o'']),
         compiler_link_executable :=
           (\<lambda>cc objects prog libs dirs. distutils_reraise (Some DistutilsExecError)) \<rparr>"




text \<open>The same machine under Python 3.4.\<close>

definition env_py34 :: environ where
  "env_py34 = env_ok\<lparr>sys_version_info := (3, 4)\<rparr>"

text \<open>
  A machine whose \<^verbatim>\<open>os.linesep\<close> is carriage return and line feed, where \<^verbatim>\<open>R RHOME\<close>
  prints a warning line and then the path, with the line feeds that
  \<^verbatim>\<open>universal_newlines=True\<close> yields.
\<close>

definition env_crlf :: environ where
  "env_crlf = env_ok
     \<lparr> os_linesep := [CHR 0x0D, CHR 0x0A],
       subprocess_check_output :=
         (\<lambda>args. Inr (''WARNING: ignoring environment value of R_HOME'' @ [CHR 0x0A]
                        @ ''/usr/lib/R'' @ [CHR 0x0A])) \<rparr>"

text \<open>A machine where \<^verbatim>\<open>R RHOME\<close> prints two warning lines before the path.\<close>

definition env_two_warnings :: environ where
  "env_two_warnings = env_ok
     \<lparr> subprocess_check_output :=
         (\<lambda>args. Inr (''WARNING: one'' @ [CHR 0x0A] @ ''WARNING: two '' @ [CHR 0x0A]
                        @ ''/usr/lib/R'' @ [CHR 0x0A])) \<rparr>"

section \<open>Properties of cmp_version\<close>

lemma cmp_version_total:
  "x \<noteq> [] \<Longrightarrow> y \<noteq> [] \<Longrightarrow> \<exists>c \<in> {- 1, 0, 1}. cmp_version x y = Inr (Some c)"
proof (induction x y rule: cmp_version.induct)
  case (3 a x b y)
  show ?case
  proof (cases "a = b \<and> x \<noteq> [] \<and> y \<noteq> []")
    case True
    with 3 show ?thesis by simp
  next
    case False
    then show ?thesis by auto
  qed
qed simp_all

lemma cmp_version_swap:
  "cmp_version x y = Inr (Some c) \<Longrightarrow> cmp_version y x = Inr (Some (- c))"
proof (induction x y arbitrary: c rule: cmp_version.induct)
  case (3 a x b y)
  show ?case
  proof (cases "a = b \<and> x \<noteq> [] \<and> y \<noteq> []")
    case True
    with 3 show ?thesis by simp
  next
    case False
    with "3.prems" show ?thesis by (auto split: if_splits)
  qed
qed simp_all

lemma cmp_version_head_only:
  assumes "x \<noteq> []" "y \<noteq> []" "length x = 1 \<or> length y = 1" "hd x = hd y"
  shows "cmp_version x y = Inr (Some 0)"
proof -
  obtain a xs b ys where xy: "x = a # xs" "y = b # ys"
    using assms(1,2) by (meson list.exhaust)
  with assms(3,4) show ?thesis by auto
qed

lemma cmp_version_prefix:
  "x \<noteq> [] \<Longrightarrow> prefix x y \<Longrightarrow> cmp_version x y = Inr (Some 0)"
proof (induction x y rule: cmp_version.induct)
  case (3 a x b y)
  then show ?case by (cases "x = []") auto
qed simp_all

text \<open>
  C9. For all non-empty tuples of integers \<open>x\<close> and \<open>y\<close>, \<open>cmp_version\<close> returns one of
  \<open>-1\<close>, \<open>0\<close>, \<open>1\<close> and is antisymmetric: \<open>cmp_version y x\<close> is the negation of
  \<open>cmp_version x y\<close>. Whenever the two tuples agree on their common prefix and either has
  length 1 the result is \<open>0\<close>; more generally a tuple compares equal to every tuple it is a
  prefix of, in either argument position, as in \<open>cmp_version (3,) (3, 3) = 0\<close>.
\<close>

theorem cmp_version_antisymmetric_prefix_equal:
  assumes "x \<noteq> []" and "y \<noteq> []"
  shows "(\<exists>c \<in> {- 1, 0, 1}. cmp_version x y = Inr (Some c) \<and> cmp_version y x = Inr (Some (- c)))
       \<and> ((length x = 1 \<or> length y = 1)
            \<and> take (min (length x) (length y)) x = take (min (length x) (length y)) y
          \<longrightarrow> cmp_version x y = Inr (Some 0))
       \<and> (prefix x y \<or> prefix y x \<longrightarrow> cmp_version x y = Inr (Some 0))"
proof (intro conjI impI)
  from cmp_version_total [OF assms] obtain c
    where c: "c \<in> {- 1, 0, 1}" "cmp_version x y = Inr (Some c)" by blast
  from cmp_version_swap [OF c(2)] c
  show "\<exists>c \<in> {- 1, 0, 1}. cmp_version x y = Inr (Some c) \<and> cmp_version y x = Inr (Some (- c))"
    by blast
next
  assume h: "(length x = 1 \<or> length y = 1)
    \<and> take (min (length x) (length y)) x = take (min (length x) (length y)) y"
  have "hd (take (min (length x) (length y)) x) = hd x"
    using assms by (cases x; cases y) simp_all
  moreover have "hd (take (min (length x) (length y)) y) = hd y"
    using assms by (cases x; cases y) simp_all
  ultimately have "hd x = hd y" using h by simp
  with assms h show "cmp_version x y = Inr (Some 0)"
    by (intro cmp_version_head_only) simp_all
next
  assume "prefix x y \<or> prefix y x"
  then show "cmp_version x y = Inr (Some 0)"
  proof
    assume "prefix x y"
    with assms(1) show ?thesis by (rule cmp_version_prefix)
  next
    assume "prefix y x"
    with assms(2) have "cmp_version y x = Inr (Some 0)" by (rule cmp_version_prefix)
    from cmp_version_swap [OF this] show ?thesis by simp
  qed
qed

theorem cmp_version_antisymmetric_prefix_equal_witness:
  "cmp_version [3] [3, 3] = Inr (Some 0) \<and> cmp_version [3, 3] [3] = Inr (Some 0)
   \<and> cmp_version [3, 2] [3, 3] = Inr (Some (- 1)) \<and> cmp_version [3, 3] [3, 2] = Inr (Some 1)"
  using cmp_version_antisymmetric_prefix_equal [of "[3]" "[3, 3]"]
    cmp_version_antisymmetric_prefix_equal [of "[3, 2]" "[3, 3]"]
  by simp

section \<open>Properties of the compiler probe\<close>

lemma fst_compile_and_link:
  "fst (compile_and_link env cc src tmp bin libs inc ld fs)
   = fst (compile_and_link env cc src tmp bin libs inc ld fs')"
  by (simp add: compile_and_link_def split: sum.splits option.splits)

lemma probe_with_compiler_fst:
  "fst (probe_with_compiler env src tmp bin libs inc ld fs)
   = fst (probe_with_compiler env src tmp bin libs inc ld fs')"
  using fst_compile_and_link [of env _ src tmp bin libs inc ld fs fs']
  by (auto simp: probe_with_compiler_def split_beta split: sum.splits option.splits)

lemma get_c_extension_status_fst:
  "fst (get_c_extension_status env libs inc ld fs)
   = fst (get_c_extension_status env libs inc ld fs')"
  using probe_with_compiler_fst
  by (auto simp: get_c_extension_status_def Let_def split: sum.splits option.splits)

lemma probe_with_compiler_reached:
  assumes "new_compiler env = Inr cc" "customize_compiler env cc = None"
  shows "fst (probe_with_compiler env src tmp bin libs inc ld fs)
    = (case handlers (fst (compile_and_link env cc src tmp bin libs inc ld fs0)) of
         Inl e \<Rightarrow> Inl e
       | Inr status \<Rightarrow> (case shutil_rmtree env tmp of Some e \<Rightarrow> Inl e | None \<Rightarrow> Inr status))"
  using assms fst_compile_and_link [of env cc src tmp bin libs inc ld fs fs0]
  by (auto simp: probe_with_compiler_def split_beta split: sum.splits option.splits)

lemma get_c_extension_status_reached:
  assumes "tempfile_mkdtemp env ''tmp_pw_r_'' = Inr tmp"
    and "open_w env (path_join tmp ''test_pw_r'' @ ''.c'') = None"
    and "fh_write env (path_join tmp ''test_pw_r'' @ ''.c'') c_code = None"
    and "new_compiler env = Inr cc" and "customize_compiler env cc = None"
  shows "fst (get_c_extension_status env libs inc ld fs)
    = (case handlers (fst (compile_and_link env cc (path_join tmp ''test_pw_r'' @ ''.c'') tmp
                        (path_join tmp ''test_pw_r'') libs inc ld fs0)) of
         Inl e \<Rightarrow> Inl e
       | Inr status \<Rightarrow> (case shutil_rmtree env tmp of Some e \<Rightarrow> Inl e | None \<Rightarrow> Inr status))"
  using assms probe_with_compiler_reached [OF assms(4,5)]
  by (simp add: get_c_extension_status_def Let_def)

lemma handlers_cases:
  "handlers (Some CCompilerError) = Inr COMPILE_ERROR"
  "handlers (Some DistutilsExecError) = Inr NO_COMPILER"
  "handlers (Some DistutilsPlatformError) = Inr PLATFORM_ERROR"
  "handlers None = Inr OK"
  by (simp_all add: handlers_def)

lemma handlers_returns:
  "(\<exists>status. handlers raised = Inr status)
   \<longleftrightarrow> raised \<in> {None, Some CCompilerError, Some DistutilsExecError, Some DistutilsPlatformError}"
  by (auto simp: handlers_def split: option.splits)

lemma remove_tree_under: "is_under d p \<Longrightarrow> remove_tree d fs p = None"
  by (simp add: remove_tree_def)

lemma is_under_self: "is_under d d"
  by (simp add: is_under_def)

lemma probe_with_compiler_returns:
  "probe_with_compiler env src tmp bin libs inc ld fs = (Inr status, fs')
   \<Longrightarrow> shutil_rmtree env tmp = None \<and> (\<exists>fs''. fs' = remove_tree tmp fs'')"
  by (auto simp: probe_with_compiler_def split_beta split: sum.splits option.splits)

lemma get_c_extension_status_returns:
  assumes "get_c_extension_status env libs inc ld fs = (Inr status, fs')"
  shows "\<exists>tmp fs''. tempfile_mkdtemp env ''tmp_pw_r_'' = Inr tmp \<and> shutil_rmtree env tmp = None
           \<and> fs' = remove_tree tmp fs''"
  using assms probe_with_compiler_returns
  by (fastforce simp: get_c_extension_status_def Let_def split: sum.splits option.splits)

lemma env_ok_probe_without_include_dirs:
  "fst (get_c_extension_status env_ok libs None None Map.empty) = Inr COMPILE_ERROR"
  by (simp add: env_ok_def get_c_extension_status_def probe_with_compiler_def
      compile_and_link_def handlers_def)

lemma env_ok_setup_steps:
  "tempfile_mkdtemp env_ok ''tmp_pw_r_'' = Inr ''/tmp/tmp_pw_r_k3x9''"
  "open_w env_ok p = None" "fh_write env_ok p s = None"
  "new_compiler env_ok = Inr (CCompiler ''unix'')"
  "customize_compiler env_ok cc = None" "shutil_rmtree env_ok p = None"
  by (simp_all add: env_ok_def)

text \<open>
  What the \<^verbatim>\<open>try\<close> statement makes of the outcome of the compile and link, for a call
  that reaches it and whose final \<^verbatim>\<open>shutil.rmtree\<close> does not raise: one status for each
  \<^verbatim>\<open>except\<close> clause, and \<open>OK\<close> when nothing is raised.
\<close>

lemma get_c_extension_status_classifies:
  assumes "tempfile_mkdtemp env ''tmp_pw_r_'' = Inr tmp_dir"
    and "open_w env (path_join tmp_dir ''test_pw_r'' @ ''.c'') = None"
    and "fh_write env (path_join tmp_dir ''test_pw_r'' @ ''.c'') c_code = None"
    and "new_compiler env = Inr cc" and "customize_compiler env cc = None"
    and "shutil_rmtree env tmp_dir = None"
    and "raised = fst (compile_and_link env cc (path_join tmp_dir ''test_pw_r'' @ ''.c'') tmp_dir
                        (path_join tmp_dir ''test_pw_r'') libraries include_dirs library_dirs fs0)"
  shows "(raised = Some CCompilerError
            \<longrightarrow> fst (get_c_extension_status env libraries include_dirs library_dirs fs) = Inr COMPILE_ERROR)
       \<and> (raised = Some DistutilsExecError
            \<longrightarrow> fst (get_c_extension_status env libraries include_dirs library_dirs fs) = Inr NO_COMPILER)
       \<and> (raised = Some DistutilsPlatformError
            \<longrightarrow> fst (get_c_extension_status env libraries include_dirs library_dirs fs) = Inr PLATFORM_ERROR)
       \<and> (raised = None
            \<longrightarrow> fst (get_c_extension_status env libraries include_dirs library_dirs fs) = Inr OK)"
  unfolding get_c_extension_status_reached [OF assms(1-5), of libraries include_dirs library_dirs fs fs0]
    assms(7) [symmetric] assms(6)
  by (simp add: handlers_cases)

text \<open>
  \<^verbatim>\<open>shutil.rmtree\<close> stands unguarded after the \<^verbatim>\<open>try\<close> statement: in \<open>env_rmtree_fails\<close>
  the compile raises CCompilerError, then \<^verbatim>\<open>rmtree\<close> raises, and the call raises instead
  of returning the status it had chosen.
\<close>

lemma get_c_extension_status_rmtree_raises:
  "fst (compile_and_link env_rmtree_fails (CCompiler ''unix'') ''/tmp/tmp_pw_r_k3x9/test_pw_r.c''
          ''/tmp/tmp_pw_r_k3x9'' ''/tmp/tmp_pw_r_k3x9/test_pw_r'' [''R''] None None Map.empty)
     = Some CCompilerError
   \<and> fst (get_c_extension_status env_rmtree_fails [''R''] None None Map.empty) = Inl OtherError"
  by (simp add: env_rmtree_fails_def env_ok_def compile_and_link_def get_c_extension_status_def
      probe_with_compiler_def handlers_def path_join_def startswith_def)

text \<open>
  The clause \<^verbatim>\<open>except DistutilsExecError\<close> is dead when neither \<^verbatim>\<open>compile\<close> nor
  \<^verbatim>\<open>link_executable\<close> lets a DistutilsExecError through, as is the case with distutils:
  then no call returns \<open>NO_COMPILER\<close>.
\<close>

lemma compile_and_link_never_exec_error:
  assumes "\<And>cc sources output_dir dirs.
             compiler_compile env cc sources output_dir dirs \<noteq> Inl DistutilsExecError"
    and "\<And>cc objects prog libs dirs.
             compiler_link_executable env cc objects prog libs dirs \<noteq> Some DistutilsExecError"
  shows "fst (compile_and_link env cc src tmp bin libs inc ld fs) \<noteq> Some DistutilsExecError"
  using assms by (auto simp: compile_and_link_def split: sum.splits option.splits)

lemma handlers_no_compiler: "handlers raised = Inr NO_COMPILER \<longleftrightarrow> raised = Some DistutilsExecError"
  by (auto simp: handlers_def split: option.splits)

lemma no_compiler_status_unreachable:
  assumes "\<And>cc sources output_dir dirs.
             compiler_compile env cc sources output_dir dirs \<noteq> Inl DistutilsExecError"
    and "\<And>cc objects prog libs dirs.
             compiler_link_executable env cc objects prog libs dirs \<noteq> Some DistutilsExecError"
  shows "fst (get_c_extension_status env libraries include_dirs library_dirs fs) \<noteq> Inr NO_COMPILER"
proof -
  have "fst (probe_with_compiler env src tmp bin libraries include_dirs library_dirs fs')
          \<noteq> Inr NO_COMPILER" for src tmp bin fs'
    using compile_and_link_never_exec_error [OF assms]
    by (auto simp: probe_with_compiler_def split_beta handlers_no_compiler
        split: sum.splits option.splits)
  then show ?thesis
    by (auto simp: get_c_extension_status_def Let_def split: sum.splits option.splits)
qed

text \<open>
  C1 (the code does not do what the claim says). The claim has the probe return
  \<open>NO_COMPILER\<close> when the tool chain cannot be run because no compiler executable is
  resolvable. On such a machine (\<open>env_no_compiler\<close>) \<^verbatim>\<open>compile\<close> raises CompileError, a
  CCompilerError, in place of the DistutilsExecError of \<^verbatim>\<open>spawn\<close>; the first \<^verbatim>\<open>except\<close>
  clause catches it and the call returns \<open>COMPILE_ERROR\<close>.
\<close>

theorem get_c_extension_status_no_compiler:
  "compiler_compile env_no_compiler (CCompiler ''unix'') [''/tmp/tmp_pw_r_k3x9/test_pw_r.c'']
      ''/tmp/tmp_pw_r_k3x9'' (Some [''/usr/share/R/include'']) = Inl CCompilerError
   \<and> fst (get_c_extension_status env_no_compiler [''R''] (Some [''/usr/share/R/include''])
          (Some [''/usr/lib/R/lib'']) Map.empty) = Inr COMPILE_ERROR"
  by (simp add: env_no_compiler_def env_ok_def distutils_reraise_def get_c_extension_status_def
      probe_with_compiler_def compile_and_link_def handlers_def)

theorem get_c_extension_status_no_compiler_witness:
  "fst (get_c_extension_status env_no_compiler [''R''] (Some [''/usr/share/R/include''])
          (Some [''/usr/lib/R/lib'']) Map.empty) \<noteq> Inr NO_COMPILER"
  using get_c_extension_status_no_compiler by simp

text \<open>
  C2 (as amended). Whenever a call of \<open>get_c_extension_status\<close> returns a status, the
  temporary directory which that call created with \<^verbatim>\<open>tempfile.mkdtemp\<close> has been deleted
  recursively: neither the directory nor any path below it exists after the call.
\<close>

theorem get_c_extension_status_removes_tmp_dir_on_return:
  assumes "get_c_extension_status env libraries include_dirs library_dirs fs = (Inr status, fs')"
  shows "\<exists>tmp_dir. tempfile_mkdtemp env ''tmp_pw_r_'' = Inr tmp_dir
           \<and> fs' tmp_dir = None \<and> (\<forall>p. is_under tmp_dir p \<longrightarrow> fs' p = None)"
proof -
  from get_c_extension_status_returns [OF assms] obtain tmp fs''
    where t: "tempfile_mkdtemp env ''tmp_pw_r_'' = Inr tmp" "fs' = remove_tree tmp fs''"
    by blast
  have "\<forall>p. is_under tmp p \<longrightarrow> fs' p = None"
    by (simp add: t(2) remove_tree_under)
  with t(1) show ?thesis by (auto simp: is_under_self)
qed

theorem get_c_extension_status_removes_tmp_dir_on_return_witness:
  "fst (get_c_extension_status env_ok [''R''] None None Map.empty) = Inr COMPILE_ERROR
   \<and> snd (get_c_extension_status env_ok [''R''] None None Map.empty) ''/tmp/tmp_pw_r_k3x9'' = None
   \<and> snd (get_c_extension_status env_ok [''R''] None None Map.empty)
        ''/tmp/tmp_pw_r_k3x9/test_pw_r.c'' = None"
proof -
  note f = env_ok_probe_without_include_dirs [of "[''R'']"]
  then have r: "get_c_extension_status env_ok [''R''] None None Map.empty
       = (Inr COMPILE_ERROR, snd (get_c_extension_status env_ok [''R''] None None Map.empty))"
    by (metis prod.collapse)
  have u: "is_under ''/tmp/tmp_pw_r_k3x9'' ''/tmp/tmp_pw_r_k3x9/test_pw_r.c''"
    by (simp add: is_under_def startswith_def)
  from get_c_extension_status_removes_tmp_dir_on_return [OF r] env_ok_setup_steps(1) u f
  show ?thesis by auto
qed

text \<open>
  C2 as stated fails: in \<open>env_open_fails\<close> the directory is created, opening the source
  file raises, the exception leaves the function, and the directory is still there.
\<close>

theorem get_c_extension_status_leaves_tmp_dir_counterexample:
  "tempfile_mkdtemp env_open_fails ''tmp_pw_r_'' = Inr ''/tmp/tmp_pw_r_k3x9''
   \<and> fst (get_c_extension_status env_open_fails [''R''] None None Map.empty) = Inl OtherError
   \<and> snd (get_c_extension_status env_open_fails [''R''] None None Map.empty) ''/tmp/tmp_pw_r_k3x9''
       = Some Directory"
  by (simp add: env_open_fails_def env_ok_def get_c_extension_status_def path_join_def
      startswith_def)

text \<open>
  C4. \<open>get_c_extension_status\<close> is deterministic and stateless: in a fixed environment (the
  same answers of the compiler and of the file system calls), the second of two sequential
  calls with identical arguments has the same outcome as the first, and the outcome does
  not depend on the state of the file system that any earlier call left behind.
\<close>

theorem get_c_extension_status_deterministic:
  "fst (get_c_extension_status env libraries include_dirs library_dirs
          (snd (get_c_extension_status env libraries include_dirs library_dirs fs)))
     = fst (get_c_extension_status env libraries include_dirs library_dirs fs)
   \<and> (\<forall>fs'. fst (get_c_extension_status env libraries include_dirs library_dirs fs')
             = fst (get_c_extension_status env libraries include_dirs library_dirs fs))"
  using get_c_extension_status_fst by blast

theorem get_c_extension_status_deterministic_witness:
  "fst (get_c_extension_status env_ok [''R''] None None Map.empty) = Inr COMPILE_ERROR
   \<and> fst (get_c_extension_status env_ok [''R''] None None
          (snd (get_c_extension_status env_ok [''R''] None None Map.empty))) = Inr COMPILE_ERROR"
  using get_c_extension_status_deterministic [of env_ok "[''R'']" None None Map.empty]
    env_ok_probe_without_include_dirs [of "[''R'']"]
  by simp

text \<open>
  C6 (as amended). An invocation of \<open>get_c_extension_status\<close> returns one of the four
  variants of \<open>COMPILATION_STATUS\<close> exactly when \<^verbatim>\<open>mkdtemp\<close>, the opening and writing of
  the source file, \<^verbatim>\<open>new_compiler\<close> and \<^verbatim>\<open>customize_compiler\<close> do not raise, the compile
  and link step succeeds or raises one of the three handled classes, and \<^verbatim>\<open>rmtree\<close> does
  not raise. Every other invocation ends with the exception raised, without a variant.
\<close>

theorem get_c_extension_status_returns_iff:
  "(\<exists>status \<in> {OK, COMPILE_ERROR, NO_COMPILER, PLATFORM_ERROR}.
      fst (get_c_extension_status env libraries include_dirs library_dirs fs) = Inr status)
   \<longleftrightarrow> (\<exists>tmp_dir cc.
          tempfile_mkdtemp env ''tmp_pw_r_'' = Inr tmp_dir
        \<and> open_w env (path_join tmp_dir ''test_pw_r'' @ ''.c'') = None
        \<and> fh_write env (path_join tmp_dir ''test_pw_r'' @ ''.c'') c_code = None
        \<and> new_compiler env = Inr cc \<and> customize_compiler env cc = None
        \<and> fst (compile_and_link env cc (path_join tmp_dir ''test_pw_r'' @ ''.c'') tmp_dir
                 (path_join tmp_dir ''test_pw_r'') libraries include_dirs library_dirs fs)
            \<in> {None, Some CCompilerError, Some DistutilsExecError, Some DistutilsPlatformError}
        \<and> shutil_rmtree env tmp_dir = None)"
  (is "?L \<longleftrightarrow> ?R")
proof
  assume ?L
  then obtain status where
    s: "fst (get_c_extension_status env libraries include_dirs library_dirs fs) = Inr status"
    by blast
  from s obtain tmp where m: "tempfile_mkdtemp env ''tmp_pw_r_'' = Inr tmp"
    by (cases "tempfile_mkdtemp env ''tmp_pw_r_''") (simp_all add: get_c_extension_status_def)
  from s m have o: "open_w env (path_join tmp ''test_pw_r'' @ ''.c'') = None"
    by (cases "open_w env (path_join tmp ''test_pw_r'' @ ''.c'')")
      (simp_all add: get_c_extension_status_def Let_def)
  from s m o have w: "fh_write env (path_join tmp ''test_pw_r'' @ ''.c'') c_code = None"
    by (cases "fh_write env (path_join tmp ''test_pw_r'' @ ''.c'') c_code")
      (simp_all add: get_c_extension_status_def Let_def)
  from s m o w obtain cc where n: "new_compiler env = Inr cc"
    by (cases "new_compiler env")
      (simp_all add: get_c_extension_status_def Let_def probe_with_compiler_def)
  from s m o w n have c: "customize_compiler env cc = None"
    by (cases "customize_compiler env cc")
      (simp_all add: get_c_extension_status_def Let_def probe_with_compiler_def)
  note r = get_c_extension_status_reached [OF m o w n c, of libraries include_dirs library_dirs fs fs]
  from s r obtain st where
    h: "handlers (fst (compile_and_link env cc (path_join tmp ''test_pw_r'' @ ''.c'') tmp
          (path_join tmp ''test_pw_r'') libraries include_dirs library_dirs fs)) = Inr st"
    by (auto split: sum.splits)
  from s r h have d: "shutil_rmtree env tmp = None"
    by (auto split: option.splits)
  from h have "fst (compile_and_link env cc (path_join tmp ''test_pw_r'' @ ''.c'') tmp
          (path_join tmp ''test_pw_r'') libraries include_dirs library_dirs fs)
        \<in> {None, Some CCompilerError, Some DistutilsExecError, Some DistutilsPlatformError}"
    using handlers_returns by blast
  with m o w n c d show ?R by blast
next
  assume ?R
  then obtain tmp cc where
    m: "tempfile_mkdtemp env ''tmp_pw_r_'' = Inr tmp"
    and o: "open_w env (path_join tmp ''test_pw_r'' @ ''.c'') = None"
    and w: "fh_write env (path_join tmp ''test_pw_r'' @ ''.c'') c_code = None"
    and n: "new_compiler env = Inr cc" and c: "customize_compiler env cc = None"
    and h: "fst (compile_and_link env cc (path_join tmp ''test_pw_r'' @ ''.c'') tmp
                 (path_join tmp ''test_pw_r'') libraries include_dirs library_dirs fs)
            \<in> {None, Some CCompilerError, Some DistutilsExecError, Some DistutilsPlatformError}"
    and d: "shutil_rmtree env tmp = None"
    by blast
  from h obtain st where
    "handlers (fst (compile_and_link env cc (path_join tmp ''test_pw_r'' @ ''.c'') tmp
          (path_join tmp ''test_pw_r'') libraries include_dirs library_dirs fs)) = Inr st"
    using handlers_returns by blast
  with get_c_extension_status_reached [OF m o w n c, of libraries include_dirs library_dirs fs fs] d
  obtain st where
    "fst (get_c_extension_status env libraries include_dirs library_dirs fs) = Inr st"
    by simp
  moreover have "st \<in> {OK, COMPILE_ERROR, NO_COMPILER, PLATFORM_ERROR}"
    by (cases st) simp_all
  ultimately show ?L by blast
qed

theorem get_c_extension_status_returns_iff_witness:
  "fst (get_c_extension_status env_ok [''R''] None None Map.empty) = Inr COMPILE_ERROR
   \<and> tempfile_mkdtemp env_ok ''tmp_pw_r_'' = Inr ''/tmp/tmp_pw_r_k3x9''
   \<and> shutil_rmtree env_ok ''/tmp/tmp_pw_r_k3x9'' = None"
proof -
  have "\<exists>tmp_dir cc.
          tempfile_mkdtemp env_ok ''tmp_pw_r_'' = Inr tmp_dir
        \<and> open_w env_ok (path_join tmp_dir ''test_pw_r'' @ ''.c'') = None
        \<and> fh_write env_ok (path_join tmp_dir ''test_pw_r'' @ ''.c'') c_code = None
        \<and> new_compiler env_ok = Inr cc \<and> customize_compiler env_ok cc = None
        \<and> fst (compile_and_link env_ok cc (path_join tmp_dir ''test_pw_r'' @ ''.c'') tmp_dir
                 (path_join tmp_dir ''test_pw_r'') [''R''] None None Map.empty)
            \<in> {None, Some CCompilerError, Some DistutilsExecError, Some DistutilsPlatformError}
        \<and> shutil_rmtree env_ok tmp_dir = None"
    by (simp add: env_ok_def compile_and_link_def)
  with get_c_extension_status_returns_iff [of env_ok "[''R'']" None None Map.empty]
  obtain status where
    "fst (get_c_extension_status env_ok [''R''] None None Map.empty) = Inr status"
    by blast
  with env_ok_probe_without_include_dirs [of "[''R'']"] env_ok_setup_steps(1,6)
  show ?thesis by simp
qed

text \<open>
  C6 as stated fails: in \<open>env_compile_other\<close> the compile raises an exception of none of
  the three handled classes, and the invocation ends with it instead of a variant.
\<close>

theorem get_c_extension_status_unhandled_counterexample:
  "fst (compile_and_link env_compile_other (CCompiler ''unix'') ''/tmp/tmp_pw_r_k3x9/test_pw_r.c''
          ''/tmp/tmp_pw_r_k3x9'' ''/tmp/tmp_pw_r_k3x9/test_pw_r'' [''R''] None None Map.empty)
     = Some OtherError
   \<and> fst (get_c_extension_status env_compile_other [''R''] None None Map.empty) = Inl OtherError"
  by (simp add: env_compile_other_def env_ok_def compile_and_link_def get_c_extension_status_def
      probe_with_compiler_def handlers_def path_join_def startswith_def)

text \<open>
  C8 (as amended). A call of \<open>get_c_extension_status\<close> with \<^verbatim>\<open>libraries=[]\<close> and no
  include or library directories hands the compiler a probe source that includes
  \<^verbatim>\<open><Rinterface.h>\<close>; provided the steps before the compile and the final \<^verbatim>\<open>rmtree\<close> do
  not raise, it returns \<open>OK\<close> exactly when the compile and link of that source succeed.
\<close>

theorem get_c_extension_status_no_libraries:
  assumes "tempfile_mkdtemp env ''tmp_pw_r_'' = Inr tmp_dir"
    and "open_w env (path_join tmp_dir ''test_pw_r'' @ ''.c'') = None"
    and "fh_write env (path_join tmp_dir ''test_pw_r'' @ ''.c'') c_code = None"
    and "new_compiler env = Inr cc" and "customize_compiler env cc = None"
    and "shutil_rmtree env tmp_dir = None"
  shows "(fst (get_c_extension_status env [] None None fs) = Inr OK
          \<longleftrightarrow> fst (compile_and_link env cc (path_join tmp_dir ''test_pw_r'' @ ''.c'') tmp_dir
                 (path_join tmp_dir ''test_pw_r'') [] None None fs0) = None)
       \<and> get_c_extension_status env [] None None fs
           = probe_with_compiler env (path_join tmp_dir ''test_pw_r'' @ ''.c'') tmp_dir
               (path_join tmp_dir ''test_pw_r'') [] None None
               (fs(tmp_dir \<mapsto> Directory, path_join tmp_dir ''test_pw_r'' @ ''.c'' \<mapsto> File c_code))
       \<and> startswith c_code ''#include <Rinterface.h>''"
proof (intro conjI)
  show "fst (get_c_extension_status env [] None None fs) = Inr OK
          \<longleftrightarrow> fst (compile_and_link env cc (path_join tmp_dir ''test_pw_r'' @ ''.c'') tmp_dir
                 (path_join tmp_dir ''test_pw_r'') [] None None fs0) = None"
    unfolding get_c_extension_status_reached [OF assms(1-5), of "[]" None None fs fs0] assms(6)
    by (auto simp: handlers_def split: option.splits sum.splits if_splits)
  show "get_c_extension_status env [] None None fs
           = probe_with_compiler env (path_join tmp_dir ''test_pw_r'' @ ''.c'') tmp_dir
               (path_join tmp_dir ''test_pw_r'') [] None None
               (fs(tmp_dir \<mapsto> Directory, path_join tmp_dir ''test_pw_r'' @ ''.c'' \<mapsto> File c_code))"
    using assms(1-3) by (simp add: get_c_extension_status_def Let_def)
  show "startswith c_code ''#include <Rinterface.h>''"
    by (simp add: c_code_def startswith_def)
qed

theorem get_c_extension_status_no_libraries_witness:
  "fst (get_c_extension_status env_default_headers [] None None Map.empty) = Inr OK"
proof -
  have m: "tempfile_mkdtemp env_default_headers ''tmp_pw_r_'' = Inr ''/tmp/tmp_pw_r_k3x9''"
    and o: "open_w env_default_headers (path_join ''/tmp/tmp_pw_r_k3x9'' ''test_pw_r'' @ ''.c'')
              = None"
    and w: "fh_write env_default_headers (path_join ''/tmp/tmp_pw_r_k3x9'' ''test_pw_r'' @ ''.c'')
              c_code = None"
    and n: "new_compiler env_default_headers = Inr (CCompiler ''unix'')"
    and c: "customize_compiler env_default_headers (CCompiler ''unix'') = None"
    and d: "shutil_rmtree env_default_headers ''/tmp/tmp_pw_r_k3x9'' = None"
    by (simp_all add: env_default_headers_def env_ok_def)
  have "fst (compile_and_link env_default_headers (CCompiler ''unix'')
          (path_join ''/tmp/tmp_pw_r_k3x9'' ''test_pw_r'' @ ''.c'') ''/tmp/tmp_pw_r_k3x9''
          (path_join ''/tmp/tmp_pw_r_k3x9'' ''test_pw_r'') [] None None Map.empty) = None"
    by (simp add: env_default_headers_def env_ok_def compile_and_link_def)
  with get_c_extension_status_no_libraries [OF m o w n c d, of Map.empty Map.empty, THEN conjunct1]
  show ?thesis by blast
qed

text \<open>
  C8 as stated fails: in \<open>env_ok\<close>, where \<^verbatim>\<open>Rinterface.h\<close> is not on the default include
  path, the call with \<^verbatim>\<open>libraries=[]\<close> and no directories returns \<open>COMPILE_ERROR\<close>.
\<close>

theorem get_c_extension_status_no_libraries_counterexample:
  "fst (get_c_extension_status env_ok [] None None Map.empty) = Inr COMPILE_ERROR"
  by (simp add: env_ok_def get_c_extension_status_def probe_with_compiler_def
      compile_and_link_def handlers_def)

section \<open>Properties of the search for R's home\<close>

lemma split_from_not_Nil: "split_from sep cur s \<noteq> []"
  by (induction sep cur s rule: split_from.induct) (subst split_from.simps, simp)

lemma rstrip_keeps_prefix:
  assumes "startswith s p" and "p \<noteq> []" and "\<not> isspace (last p)"
  shows "startswith (rstrip s) p"
proof -
  from assms(1) have s: "s = p @ drop (length p) s"
    by (metis append_take_drop_id startswith_def)
  define t where "t = drop (length p) s"
  have "dropWhile isspace (rev p) = rev p"
    using assms(2,3) by (cases "rev p") (simp_all add: last_rev [symmetric] hd_rev)
  then have "dropWhile isspace (rev t @ rev p)
      = (if \<forall>x \<in> set (rev t). isspace x then rev p else dropWhile isspace (rev t) @ rev p)"
    by (simp add: dropWhile_append)
  then have "\<exists>u. rstrip (p @ t) = p @ u"
    by (auto simp: rstrip_def)
  with s show ?thesis
    unfolding t_def startswith_def by (metis append_eq_conv_conj)
qed

lemma rstrip_spec:
  "(\<exists>ws. s = rstrip s @ ws \<and> (\<forall>c \<in> set ws. isspace c))
   \<and> (rstrip s = [] \<or> \<not> isspace (last (rstrip s)))"
proof
  have "rev s = takeWhile isspace (rev s) @ dropWhile isspace (rev s)" by simp
  then have "s = rev (dropWhile isspace (rev s)) @ rev (takeWhile isspace (rev s))"
    by (metis rev_append rev_rev_ident)
  moreover have "\<forall>c \<in> set (rev (takeWhile isspace (rev s))). isspace c"
    by (auto dest: set_takeWhileD)
  ultimately show "\<exists>ws. s = rstrip s @ ws \<and> (\<forall>c \<in> set ws. isspace c)"
    unfolding rstrip_def by blast
  show "rstrip s = [] \<or> \<not> isspace (last (rstrip s))"
    unfolding rstrip_def
    by (metis dropWhile_eq_Nil_conv hd_dropWhile last_rev rev_is_Nil_conv)
qed

lemma check_renviron_site_fst: "fst (check_renviron_site r_home w) = Inr r_home"
  by (simp add: check_renviron_site_def)

lemma check_renviron_site_events:
  "events (snd (check_renviron_site r_home w))
   = events w @ events (snd (check_renviron_site r_home \<lparr>files = files w, events = []\<rparr>))"
  by (simp add: check_renviron_site_def log_def)

lemma check_renviron_site_files: "files (snd (check_renviron_site r_home w)) = files w"
  by (simp add: check_renviron_site_def log_def)

text \<open>
  What \<open>setup_get_r_home\<close> returns when the subprocess returns an output: the split at
  \<^verbatim>\<open>os.linesep\<close> yields a non-empty list of lines; the first line, stripped, is returned
  unless it starts with \<^verbatim>\<open>WARNING\<close>; if it does and the split yields a second line, a
  warning quoting the first line is emitted and the second line, stripped, is returned,
  also when that line starts with \<^verbatim>\<open>WARNING\<close> itself.
\<close>

lemma setup_get_r_home_parses_lines:
  assumes "subprocess_check_output env [r_bin, ''RHOME''] = Inr out"
    and "os_linesep env \<noteq> []"
    and "lines = split_from (os_linesep env) [] out"
  shows "lines \<noteq> []
       \<and> (\<not> startswith (hd lines) ''WARNING''
            \<longrightarrow> fst (setup_get_r_home env r_bin w) = Inr (rstrip (hd lines)))
       \<and> (startswith (hd lines) ''WARNING'' \<and> 2 \<le> length lines
            \<longrightarrow> fst (setup_get_r_home env r_bin w) = Inr (rstrip (lines ! 1))
              \<and> Warn (''R emitting a warning: '' @ hd lines)
                  \<in> set (events (snd (setup_get_r_home env r_bin w)))
              \<and> (startswith (lines ! 1) ''WARNING''
                   \<longrightarrow> startswith (rstrip (lines ! 1)) ''WARNING''))"
proof -
  have ne: "lines \<noteq> []" unfolding assms(3) by (rule split_from_not_Nil)
  then obtain line0 rest where l: "lines = line0 # rest" by (cases lines) auto
  have sp: "str_split out (os_linesep env) = Inr (line0 # rest)"
    using assms(2,3) l by (simp add: str_split_def)
  have a: "\<not> startswith line0 ''WARNING''
      \<Longrightarrow> fst (setup_get_r_home env r_bin w) = Inr (rstrip line0)"
    by (simp add: setup_get_r_home_def assms(1) sp check_renviron_site_fst Let_def)
  have b: "fst (setup_get_r_home env r_bin w) = Inr (rstrip (rest ! 0))
      \<and> Warn (''R emitting a warning: '' @ line0) \<in> set (events (snd (setup_get_r_home env r_bin w)))"
    if "startswith line0 ''WARNING''" "rest \<noteq> []"
  proof -
    from that(2) obtain line1 more' where r: "rest = line1 # more'" by (cases rest) auto
    show ?thesis
      using that(1)
      by (simp add: setup_get_r_home_def assms(1) sp r check_renviron_site_def log_def Let_def)
  qed
  have c: "startswith s ''WARNING'' \<Longrightarrow> startswith (rstrip s) ''WARNING''" for s
    by (rule rstrip_keeps_prefix) (simp_all add: isspace_def)
  from ne a b c show ?thesis
    unfolding l by (cases rest) auto
qed

lemma setup_get_r_home_parses_lines_examples:
  "fst (setup_get_r_home env_two_warnings ''R'' (initial_world Map.empty)) = Inr ''WARNING: two''
   \<and> fst (setup_get_r_home env_ok ''R'' (initial_world Map.empty)) = Inr ''/usr/lib/R''"
proof (intro conjI)
  have o: "subprocess_check_output env_two_warnings [''R'', ''RHOME'']
        = Inr (''WARNING: one'' @ [CHR 0x0A] @ ''WARNING: two '' @ [CHR 0x0A]
                        @ ''/usr/lib/R'' @ [CHR 0x0A])"
    and s: "os_linesep env_two_warnings \<noteq> []"
    by (simp_all add: env_two_warnings_def env_ok_def)
  have l: "[''WARNING: one'', ''WARNING: two '', ''/usr/lib/R'', '''']
       = split_from (os_linesep env_two_warnings) []
           (''WARNING: one'' @ [CHR 0x0A] @ ''WARNING: two '' @ [CHR 0x0A]
                        @ ''/usr/lib/R'' @ [CHR 0x0A])"
    by (simp add: env_two_warnings_def env_ok_def startswith_def split_from.simps)
  from setup_get_r_home_parses_lines [OF o s l, of "initial_world Map.empty"]
  show "fst (setup_get_r_home env_two_warnings ''R'' (initial_world Map.empty))
          = Inr ''WARNING: two''"
    by (simp add: startswith_def rstrip_def isspace_def)
next
  have o: "subprocess_check_output env_ok [''R'', ''RHOME''] = Inr (''/usr/lib/R'' @ [CHR 0x0A])"
    and s: "os_linesep env_ok \<noteq> []"
    by (simp_all add: env_ok_def)
  have l: "[''/usr/lib/R'', ''''] = split_from (os_linesep env_ok) [] (''/usr/lib/R'' @ [CHR 0x0A])"
    by (simp add: env_ok_def startswith_def split_from.simps)
  from setup_get_r_home_parses_lines [OF o s l, of "initial_world Map.empty"]
  show "fst (setup_get_r_home env_ok ''R'' (initial_world Map.empty)) = Inr ''/usr/lib/R''"
    by (simp add: startswith_def rstrip_def isspace_def)
qed

text \<open>
  C5 (the code does not do what the claim says). The claim, like the comment in the code
  (\<^verbatim>\<open>#Twist if 'R RHOME' spits out a warning\<close>), has the second line returned when the
  first line of the output starts with \<^verbatim>\<open>WARNING\<close>. In \<open>env_crlf\<close>, where \<^verbatim>\<open>os.linesep\<close>
  is carriage return and line feed while the output read with \<^verbatim>\<open>universal_newlines=True\<close>
  separates its warning line and its path line by a line feed, the split yields a single
  element and the subscript \<^verbatim>\<open>r_home[1]\<close> raises IndexError: no path is returned.
\<close>

theorem setup_get_r_home_crlf_index_error:
  "os_linesep env_crlf = [CHR 0x0D, CHR 0x0A]
   \<and> subprocess_check_output env_crlf [''R'', ''RHOME'']
     = Inr (''WARNING: ignoring environment value of R_HOME'' @ [CHR 0x0A]
            @ ''/usr/lib/R'' @ [CHR 0x0A])
   \<and> fst (setup_get_r_home env_crlf ''R'' (initial_world Map.empty)) = Inl IndexError"
  by (simp add: env_crlf_def env_ok_def setup_get_r_home_def str_split_def startswith_def
      initial_world_def log_def split_from.simps)

theorem setup_get_r_home_crlf_index_error_witness:
  "fst (setup_get_r_home env_crlf ''R'' (initial_world Map.empty)) \<noteq> Inr ''/usr/lib/R''"
  using setup_get_r_home_crlf_index_error by simp

lemma rstrip_no_break_space: "rstrip (''/usr/lib/R'' @ [CHR 0xA0] @ '' '') = ''/usr/lib/R''"
  by (simp add: rstrip_def isspace_def)

lemma setup_get_r_home_fst_getenv:
  "fst (setup_get_r_home (env\<lparr>os_getenv := g\<rparr>) r_bin w) = fst (setup_get_r_home env r_bin w)"
  by (simp add: setup_get_r_home_def check_renviron_site_def log_def Let_def
      split: sum.splits list.splits)

lemma setup_get_r_home_files: "files (snd (setup_get_r_home env r_bin w)) = files w"
  by (simp add: setup_get_r_home_def check_renviron_site_def log_def Let_def
      split: sum.splits list.splits)

lemma setup_get_r_home_events_getenv:
  "events (snd (setup_get_r_home (env\<lparr>os_getenv := g\<rparr>) r_bin w))
   = events w
     @ (if g ''R_ENVIRON'' \<noteq> None \<or> g ''R_ENVIRON_USER'' \<noteq> None
        then [Warn environ_warning] else [])
     @ events (snd (setup_get_r_home (env\<lparr>os_getenv := (\<lambda>name. None)\<rparr>) r_bin
                      \<lparr>files = files w, events = []\<rparr>))"
  by (simp add: setup_get_r_home_def check_renviron_site_def log_def Let_def
      split: sum.splits list.splits)

text \<open>
  C7. The value returned (or the exception raised) by \<open>setup_get_r_home\<close> does not depend
  on the environment variables: two runs that differ only in what \<^verbatim>\<open>os.getenv\<close> answers
  have the same outcome. Setting \<^verbatim>\<open>R_ENVIRON\<close> or \<^verbatim>\<open>R_ENVIRON_USER\<close> only puts one
  warning in front of the events of the run in which neither is set.
\<close>

theorem setup_get_r_home_ignores_r_environ:
  "fst (setup_get_r_home (env\<lparr>os_getenv := g\<rparr>) r_bin w) = fst (setup_get_r_home env r_bin w)
   \<and> files (snd (setup_get_r_home (env\<lparr>os_getenv := g\<rparr>) r_bin w)) = files w
   \<and> events (snd (setup_get_r_home (env\<lparr>os_getenv := g\<rparr>) r_bin w))
     = events w
       @ (if g ''R_ENVIRON'' \<noteq> None \<or> g ''R_ENVIRON_USER'' \<noteq> None
          then [Warn environ_warning] else [])
       @ events (snd (setup_get_r_home (env\<lparr>os_getenv := (\<lambda>name. None)\<rparr>) r_bin
                        \<lparr>files = files w, events = []\<rparr>))"
  using setup_get_r_home_fst_getenv setup_get_r_home_files setup_get_r_home_events_getenv
  by blast

theorem setup_get_r_home_ignores_r_environ_witness:
  "fst (setup_get_r_home
          (env_ok\<lparr>os_getenv := (\<lambda>name. if name = ''R_ENVIRON'' then Some ''/etc/Renviron'' else None)\<rparr>)
          ''R'' (initial_world Map.empty))
     = Inr ''/usr/lib/R''
   \<and> events (snd (setup_get_r_home
          (env_ok\<lparr>os_getenv := (\<lambda>name. if name = ''R_ENVIRON'' then Some ''/etc/Renviron'' else None)\<rparr>)
          ''R'' (initial_world Map.empty)))
     = [Warn environ_warning]
   \<and> fst (setup_get_r_home env_ok ''R'' (initial_world Map.empty)) = Inr ''/usr/lib/R''
   \<and> events (snd (setup_get_r_home env_ok ''R'' (initial_world Map.empty))) = []"
proof -
  have e: "setup_get_r_home env_ok ''R'' (initial_world Map.empty)
      = (Inr ''/usr/lib/R'', initial_world Map.empty)"
    by (simp add: env_ok_def setup_get_r_home_def str_split_def split_from.simps startswith_def
        rstrip_def isspace_def check_renviron_site_def initial_world_def)
  have n: "env_ok\<lparr>os_getenv := (\<lambda>name. None)\<rparr> = env_ok"
    by (simp add: env_ok_def)
  from setup_get_r_home_ignores_r_environ
    [where env = env_ok and r_bin = "''R''" and w = "initial_world Map.empty"
       and g = "\<lambda>name. if name = ''R_ENVIRON'' then Some ''/etc/Renviron'' else None"] e n
  show ?thesis by (simp add: initial_world_def)
qed

section \<open>Properties of the script\<close>

lemma get_r_c_extension_status_count:
  "ev \<noteq> Call_get_r_home \<Longrightarrow> ev \<noteq> Call_get_c_extension_status
   \<Longrightarrow> (\<And>flag. ev \<noteq> Call_get_r_flags flag)
   \<Longrightarrow> count_list (events (snd (get_r_c_extension_status env w))) ev = count_list (events w) ev"
  by (auto simp: get_r_c_extension_status_def log_def Let_def split_beta split: sum.splits)

lemma get_r_c_extension_status_events_returned:
  "fst (get_r_c_extension_status env w) = Inr status
   \<Longrightarrow> events (snd (get_r_c_extension_status env w))
       = events w @ [Call_get_r_home, Call_get_r_flags ''--ldflags'',
                     Call_get_r_flags ''--cppflags'', Call_get_c_extension_status]"
  by (auto simp: get_r_c_extension_status_def log_def Let_def split_beta split: sum.splits)

lemma select_cffi_modules_events:
  "events (snd (select_cffi_modules m st w)) = events w
   \<or> (\<exists>s. events (snd (select_cffi_modules m st w)) = events w @ [Print s])"
  by (simp add: select_cffi_modules_def log_def)

lemma select_cffi_modules_abi:
  "m \<noteq> API \<Longrightarrow> m \<noteq> BOTH \<Longrightarrow> select_cffi_modules m st w = (Inr [ffibuilder_abi], w)"
  by (simp add: select_cffi_modules_def)


lemma setup_script_probe_raises:
  assumes "\<not> python_too_old env" "import_error env = None"
    and "fst (get_r_c_extension_status env (log Call_get_r_c_extension_status w)) = Inl e"
  shows "setup_script env w
    = (Inl e, snd (get_r_c_extension_status env (log Call_get_r_c_extension_status w)))"
  using assms by (simp add: setup_script_def split_beta)

lemma setup_script_probe_returns:
  assumes "\<not> python_too_old env" "import_error env = None"
    and "fst (get_r_c_extension_status env (log Call_get_r_c_extension_status w)) = Inr st"
  shows "setup_script env w
    = (case situation_get_cffi_mode env of
         Inl e \<Rightarrow> (Inl e, log Call_get_cffi_mode
                      (snd (get_r_c_extension_status env (log Call_get_r_c_extension_status w))))
       | Inr m \<Rightarrow> select_cffi_modules m st (log Call_get_cffi_mode
                      (snd (get_r_c_extension_status env (log Call_get_r_c_extension_status w)))))"
  using assms by (simp add: setup_script_def split_beta Let_def)


lemma env_ok_probe:
  "fst (get_r_c_extension_status env_ok
          (log Call_get_r_c_extension_status (initial_world Map.empty))) = Inr OK"
  by (simp add: env_ok_def get_r_c_extension_status_def
      get_c_extension_status_def probe_with_compiler_def compile_and_link_def handlers_def
      log_def initial_world_def Let_def split_beta)


lemma env_ok_facts:
  "\<not> python_too_old env_ok" "import_error env_ok = None"
  "situation_get_cffi_mode env_ok = Inr ABI"
  by (simp_all add: env_ok_def python_too_old_def)














text \<open>
  Run as the main program, a script that has chosen its \<^verbatim>\<open>cffi_modules\<close> goes on to read
  the unbound name \<^verbatim>\<open>pack_name\<close>: every such run ends with NameError and exit status 1,
  also in \<open>env_ok\<close>, where nothing else fails.
\<close>

lemma setup_main_raises_name_error:
  "fst (setup_script env w) = Inr cffi_modules
   \<Longrightarrow> fst (setup_main True env w) = Inl NameError
       \<and> exit_status (fst (setup_main True env w)) = 1"
  by (cases "setup_script env w") (simp add: setup_main_def)

lemma setup_main_always_raises: "\<exists>e. fst (setup_main True env w) = Inl e"
  by (cases "setup_script env w") (auto simp: setup_main_def split: sum.splits)

lemma setup_main_env_ok:
  "fst (setup_main True env_ok (initial_world Map.empty)) = Inl NameError
   \<and> exit_status (fst (setup_main True env_ok (initial_world Map.empty))) = 1"
proof -
  have "fst (setup_script env_ok (initial_world Map.empty)) = Inr [ffibuilder_abi]"
    using env_ok_probe env_ok_facts
      setup_script_probe_returns [of env_ok "initial_world Map.empty" OK]
    by (simp add: select_cffi_modules_def)
  then show ?thesis by (rule setup_main_raises_name_error)
qed


text \<open>
  C10 (as amended). On every run that passes the Python version guard and the imports,
  \<open>get_r_c_extension_status\<close> is called exactly once, as the first thing, before the cffi
  mode is inspected. If it raises, the run ends with that exception and the mode is never
  inspected. If it returns, the R home query, the two R flags queries and the compiler
  probe have each run once, then the mode is inspected once; when the mode is ABI or any
  value other than API and BOTH the result of the probe is ignored: only the ABI builder is
  selected and the run does not exit, whatever the status.
\<close>

theorem setup_script_probes_once_before_mode:
  assumes "\<not> python_too_old env" and "import_error env = None"
    and "run = setup_script env (initial_world fs)"
    and "probe = get_r_c_extension_status env
                   (log Call_get_r_c_extension_status (initial_world fs))"
  shows "count_list (events (snd run)) Call_get_r_c_extension_status = 1
       \<and> take 1 (events (snd run)) = [Call_get_r_c_extension_status]
       \<and> (\<forall>e. fst probe = Inl e
             \<longrightarrow> fst run = Inl e \<and> count_list (events (snd run)) Call_get_cffi_mode = 0)
       \<and> (\<forall>status. fst probe = Inr status
             \<longrightarrow> count_list (events (snd run)) Call_get_cffi_mode = 1
               \<and> take 6 (events (snd run)) = probe_events @ [Call_get_cffi_mode]
               \<and> (\<forall>m. situation_get_cffi_mode env = Inr m \<and> m \<noteq> API \<and> m \<noteq> BOTH
                     \<longrightarrow> fst run = Inr [ffibuilder_abi]
                       \<and> events (snd run) = probe_events @ [Call_get_cffi_mode]))"
proof -
  let ?w0 = "log Call_get_r_c_extension_status (initial_world fs)"
  have e0: "events ?w0 = [Call_get_r_c_extension_status]"
    by (simp add: log_def initial_world_def)
  have cnt: "count_list (events (snd probe)) Call_get_r_c_extension_status = 1"
    "count_list (events (snd probe)) Call_get_cffi_mode = 0"
    unfolding assms(4) by (simp_all add: get_r_c_extension_status_count e0)
  have first: "take 1 (events (snd probe)) = [Call_get_r_c_extension_status]"
    unfolding assms(4)
    by (auto simp: get_r_c_extension_status_def log_def initial_world_def Let_def split_beta
        split: sum.splits)
  show ?thesis
  proof (cases "fst probe")
    case (Inl e)
    from setup_script_probe_raises [OF assms(1,2), of "initial_world fs" e] Inl assms(3,4)
    have "run = (Inl e, snd probe)" by simp
    with Inl cnt first show ?thesis by simp
  next
    case (Inr st)
    have pe: "events (snd probe) = probe_events"
      using get_r_c_extension_status_events_returned [of env ?w0 st] Inr e0
      unfolding assms(4) probe_events_def by simp
    let ?w2 = "log Call_get_cffi_mode (snd probe)"
    have e2: "events ?w2 = probe_events @ [Call_get_cffi_mode]"
      by (simp add: log_def pe)
    note r = setup_script_probe_returns [OF assms(1,2), of "initial_world fs" st]
    have ev: "events (snd run) = events ?w2 \<or> (\<exists>s. events (snd run) = events ?w2 @ [Print s])"
    proof (cases "situation_get_cffi_mode env")
      case (Inl e)
      with r Inr assms(3,4) show ?thesis by simp
    next
      case m: (Inr m)
      with r Inr assms(3,4) have "run = select_cffi_modules m st ?w2" by simp
      with select_cffi_modules_events [of m st ?w2] show ?thesis by simp
    qed
    have c1: "count_list (events (snd run)) Call_get_r_c_extension_status = 1"
      and c2: "count_list (events (snd run)) Call_get_cffi_mode = 1"
      and t1: "take 1 (events (snd run)) = [Call_get_r_c_extension_status]"
      and t6: "take 6 (events (snd run)) = probe_events @ [Call_get_cffi_mode]"
      using ev unfolding e2 by (auto simp: probe_events_def)
    have abi: "fst run = Inr [ffibuilder_abi]
        \<and> events (snd run) = probe_events @ [Call_get_cffi_mode]"
      if "situation_get_cffi_mode env = Inr m" "m \<noteq> API" "m \<noteq> BOTH" for m
      using r Inr assms(3,4) that e2 by (simp add: select_cffi_modules_abi)
    from Inr c1 c2 t1 t6 abi show ?thesis by simp
  qed
qed

theorem setup_script_probes_once_before_mode_witness:
  "fst (setup_script env_ok (initial_world Map.empty)) = Inr [ffibuilder_abi]
   \<and> events (snd (setup_script env_ok (initial_world Map.empty)))
       = probe_events @ [Call_get_cffi_mode]
   \<and> count_list (events (snd (setup_script env_ok (initial_world Map.empty))))
       Call_get_r_c_extension_status = 1"
proof -
  note t = setup_script_probes_once_before_mode [OF env_ok_facts(1,2) refl refl, of Map.empty]
  from t have c: "count_list (events (snd (setup_script env_ok (initial_world Map.empty))))
       Call_get_r_c_extension_status = 1"
    by (rule conjunct1)
  from t env_ok_probe
  have "\<forall>m. situation_get_cffi_mode env_ok = Inr m \<and> m \<noteq> API \<and> m \<noteq> BOTH
          \<longrightarrow> fst (setup_script env_ok (initial_world Map.empty)) = Inr [ffibuilder_abi]
            \<and> events (snd (setup_script env_ok (initial_world Map.empty)))
                = probe_events @ [Call_get_cffi_mode]"
    by blast
  with env_ok_facts(3) c show ?thesis by simp
qed

text \<open>
  C10 as stated fails: under Python 3.4 the run ends at the version guard and the probe is
  never executed.
\<close>

theorem setup_script_no_probe_counterexample:
  "fst (setup_script env_py34 (initial_world Map.empty)) = Inl (SystemExit 1)
   \<and> events (snd (setup_script env_py34 (initial_world Map.empty))) = [Print version_msg]
   \<and> count_list (events (snd (setup_script env_py34 (initial_world Map.empty))))
        Call_get_r_c_extension_status = 0"
  by (simp add: env_py34_def env_ok_def setup_script_def python_too_old_def log_def
      initial_world_def)

end
